theory Spec2Isabelle
  imports Main "HOL-Library.Sublist"
begin

section \<open>The waste-management chat backend (main.py)\<close>

text \<open>
  The classifier \<open>is_waste_management_question\<close> and the \<open>/chat\<close> handler of
  \<open>main.py\<close>, embedded as HOL functions.

  A Python \<open>str\<close> is modelled as a \<open>string\<close>, one \<open>char\<close> per character; the model is
  exact on ASCII text. All keyword tables of the program are ASCII. The two canned answers
  that contain an em dash (U+2014) carry its three UTF-8 bytes; answers are only returned,
  never searched or lower-cased.

  The request model demands \<open>min_length=1\<close> of the message; the web framework checks it
  before the handler runs. Neither the classifier nor the handler relies on it, and the
  properties below hold for the empty message too.
\<close>

subsection \<open>Request and response models\<close>

record ChatRequest =
  message :: string

record ChatResponse =
  reply :: string
  allowed :: bool
  reasons :: "string list"

subsection \<open>String primitives: \<open>str.lower\<close> and \<open>in\<close>\<close>

text \<open>
  \<open>str.lower()\<close>: every upper-case ASCII letter is replaced by its lower-case letter, every
  other character is kept. (On non-ASCII text Python also rewrites the cased non-ASCII
  letters. The general theorems below are stated in terms of \<open>lower text\<close> and their proofs
  do not unfold it, except on white-space characters, which lower-casing keeps.)
\<close>

definition lower_char :: "char \<Rightarrow> char" where
  "lower_char c =
     (case map_of (zip ''ABCDEFGHIJKLMNOPQRSTUVWXYZ'' ''abcdefghijklmnopqrstuvwxyz'') c of
        Some l \<Rightarrow> l
      | None \<Rightarrow> c)"

definition lower :: "string \<Rightarrow> string" where
  "lower text = map lower_char text"

text \<open>
  \<open>word in t\<close> on strings: \<open>word\<close> occurs in \<open>t\<close> as a contiguous substring. The scan tries
  every start position of \<open>t\<close> from the left, the end of the text included (so the empty
  word is contained in every text).
\<close>

fun contains :: "string \<Rightarrow> string \<Rightarrow> bool" where
  "contains word [] = (word = [])"
| "contains word (c # cs) = (prefix word (c # cs) \<or> contains word cs)"

subsection \<open>The classifier\<close>

definition waste_keywords :: "string list" where
  "waste_keywords =
     [''waste'', ''garbage'', ''trash'', ''refuse'', ''rubbish'', ''litter'',
      ''recycle'', ''recycling'', ''compost'', ''composting'', ''landfill'',
      ''incineration'', ''waste segregation'', ''segregation'', ''bin'', ''bins'',
      ''collection'', ''pickup'', ''solid waste'', ''hazardous waste'', ''ewaste'',
      ''e-waste'', ''medical waste'', ''organic waste'', ''plastic'', ''paper'',
      ''glass'', ''metal'', ''battery'', ''electronics disposal'', ''zero waste'',
      ''circular economy'', ''resource recovery'', ''material recovery'',
      ''mrf'', ''msw'', ''municipal waste'', ''biodegradable'', ''non-biodegradable'',
      ''sanitary waste'', ''waste audit'', ''dumpster'', ''transfer station'',
      ''compactor'', ''leachate'', ''methane'', ''anaerobic digestion'',
      ''extended producer responsibility'', ''epr'',
      ''collection schedule'', ''pickup schedule'', ''bulk waste'',
      ''drop-off'', ''recycling center'', ''recycling centre'', ''clean-up'',
      ''sorting'', ''guidelines'', ''contamination'', ''blue bin'', ''green bin'',
      ''brown bin'']"

definition banned_keywords :: "string list" where
  "banned_keywords =
     [''stock'', ''stocks'', ''share'', ''shares'', ''crypto'', ''bitcoin'',
      ''ethereum'', ''forex'', ''currency'', ''currencies'', ''dividend'',
      ''portfolio'', ''valuation'', ''budget'', ''loan'', ''mortgage'', ''interest'',
      ''roi'', ''return on investment'', ''revenue'', ''profit'', ''loss'',
      ''accounting'', ''tax'', ''taxes'', ''irs'', ''gst'', ''balance sheet'',
      ''income statement'', ''inflation'', ''economy'', ''economic'', ''finance'',
      ''financial'', ''bank'', ''banking'', ''trading'', ''hedge'', ''fund'']"

definition context_hints :: "string list" where
  "context_hints = [''bin day'', ''pickup day'', ''how to dispose'', ''can i throw'']"

text \<open>
  The function starts with an empty \<open>reasons\<close> list and appends to it on the path it takes.
  \<open>any(word in t for word in ws)\<close> is \<open>list_ex (\<lambda>word. contains word t) ws\<close>.
\<close>

definition is_waste_management_question :: "string \<Rightarrow> bool \<times> string list" where
  "is_waste_management_question text =
     (let t = lower text;
          reasons' = [];
          banned_hit = list_ex (\<lambda>word. contains word t) banned_keywords;
          waste_hit = list_ex (\<lambda>word. contains word t) waste_keywords
      in if banned_hit \<and> \<not> waste_hit then
           (False,
            reasons' @ [''Question appears to be about finance/business, which is out of scope.''])
         else if waste_hit then
           (True, reasons' @ [''Detected waste-management related keywords.''])
         else if list_ex (\<lambda>h. contains h t) context_hints then
           (True, reasons' @ [''Detected disposal/pickup context.''])
         else
           (False, reasons' @ [''Could not match the topic to waste management.'']))"

subsection \<open>The chat handler\<close>

definition faqs :: "(string \<times> string) list" where
  "faqs =
     [(''plastic'',
       ''Clean and dry plastics with numbers 1-5 are typically recyclable. Film/plastic bags usually are not curbside''
         @ [CHR 0xE2, CHR 0x80, CHR 0x94] @ ''use store drop-offs if available.''),
      (''battery'',
       ''Batteries should not go in regular bins. Use designated e-waste or hazardous waste drop-offs in your city.''),
      (''compost'',
       ''Compost accepts food scraps, coffee grounds, yard waste, and uncoated paper. Avoid meat, dairy, and oily foods if your local guidelines restrict them.''),
      (''glass'',
       ''Rinse glass containers and remove caps. Some areas separate by color; check local rules.''),
      (''electronics'',
       ''Electronics are e-waste. Use certified e-waste collection points for safe recycling.''),
      (''pickup'',
       ''Curbside pickup days vary by location. Please check your local collection schedule or provide your area for specific guidance.''),
      (''hazard'',
       ''Hazardous waste (paint, chemicals, solvents) requires special drop-offs''
         @ [CHR 0xE2, CHR 0x80, CHR 0x94] @ ''never place in regular bins.''),
      (''landfill'',
       ''Items that are contaminated, mixed materials, or non-recyclable plastics often go to landfill. Consider reuse first.'')]"

definition refusal_reply :: string where
  "refusal_reply =
     ''I'm here to help with waste management topics only. ''
       @ ''Please ask about recycling, disposal guidelines, pickup schedules, composting, etc.''"

definition fallback_reply :: string where
  "fallback_reply =
     ''This appears related to waste management. Could you share your city/area if you need local rules, or specify the material/item you're disposing of?''"

text \<open>
  The \<open>for key, ans in faqs\<close> loop: \<open>reply\<close> is \<open>None\<close> on entry, the first pair whose key
  occurs in \<open>t\<close> sets it and breaks out.
\<close>

fun faq_loop :: "(string \<times> string) list \<Rightarrow> string \<Rightarrow> string option \<Rightarrow> string option" where
  "faq_loop [] t reply' = reply'"
| "faq_loop ((key, ans) # rest) t reply' =
     (if contains key t then Some ans else faq_loop rest t reply')"

definition chat :: "ChatRequest \<Rightarrow> ChatResponse" where
  "chat req =
     (case is_waste_management_question (message req) of
        (allowed', reasons') \<Rightarrow>
          if \<not> allowed' then
            \<lparr>reply = refusal_reply, allowed = False, reasons = reasons'\<rparr>
          else
            let t = lower (message req);
                reply' = faq_loop faqs t None;
                reply' = (case reply' of None \<Rightarrow> fallback_reply | Some r \<Rightarrow> r)
            in \<lparr>reply = reply', allowed = True, reasons = reasons'\<rparr>)"

section \<open>Properties\<close>

subsection \<open>Substring containment\<close>

text \<open>\<open>contains\<close> is the substring relation: some prefix and suffix surround the word.\<close>

lemma contains_iff: "contains word t \<longleftrightarrow> (\<exists>ps ss. t = ps @ word @ ss)"
  by (induction t) (auto simp: prefix_def Cons_eq_append_conv)

lemma contains_append_left: "contains (u @ v) t \<Longrightarrow> contains u t"
proof -
  assume "contains (u @ v) t"
  then obtain ps ss where "t = ps @ (u @ v) @ ss"
    unfolding contains_iff by blast
  then have "t = ps @ u @ (v @ ss)" by simp
  then show "contains u t"
    unfolding contains_iff by blast
qed

lemma contains_set: "contains word t \<Longrightarrow> set word \<subseteq> set t"
  unfolding contains_iff by auto

subsection \<open>The four outcomes of the classifier\<close>

text \<open>
  The decision of the classifier, with the waste test first: the banned test only matters
  when no waste keyword occurs.
\<close>

lemma classifier_cases:
  "is_waste_management_question text =
     (if list_ex (\<lambda>word. contains word (lower text)) waste_keywords then
        (True, [''Detected waste-management related keywords.''])
      else if list_ex (\<lambda>word. contains word (lower text)) banned_keywords then
        (False, [''Question appears to be about finance/business, which is out of scope.''])
      else if list_ex (\<lambda>h. contains h (lower text)) context_hints then
        (True, [''Detected disposal/pickup context.''])
      else (False, [''Could not match the topic to waste management.'']))"
  by (simp add: is_waste_management_question_def Let_def)

text \<open>
  C1. Whenever some waste keyword occurs in the lower-cased text, the classifier answers
  \<open>allowed = True\<close> with the single reason "Detected waste-management related keywords.".
  Nothing is assumed about banned keywords: a text that also contains one is accepted all
  the same.
\<close>

theorem waste_keyword_allowed:
  "word \<in> set waste_keywords \<Longrightarrow> contains word (lower text) \<Longrightarrow>
   is_waste_management_question text = (True, [''Detected waste-management related keywords.''])"
  unfolding classifier_cases list_ex_iff by auto

text \<open>An instance with both a waste keyword and a banned keyword in the text.\<close>

theorem waste_keyword_allowed_witness:
  "''plastic'' \<in> set waste_keywords \<and> contains ''plastic'' (lower ''Stock of PLASTIC'')
   \<and> ''stock'' \<in> set banned_keywords \<and> contains ''stock'' (lower ''Stock of PLASTIC'')
   \<and> is_waste_management_question ''Stock of PLASTIC''
       = (True, [''Detected waste-management related keywords.''])"
proof -
  have k: "''plastic'' \<in> set waste_keywords"
    by (simp add: waste_keywords_def)
  have c: "contains ''plastic'' (lower ''Stock of PLASTIC'')"
    by (simp add: lower_def lower_char_def)
  have b: "''stock'' \<in> set banned_keywords \<and> contains ''stock'' (lower ''Stock of PLASTIC'')"
    by (simp add: banned_keywords_def lower_def lower_char_def)
  from k c b waste_keyword_allowed [OF k c] show ?thesis by blast
qed

text \<open>
  C2. Whenever some banned keyword occurs in the lower-cased text and no waste keyword does,
  the classifier answers \<open>allowed = False\<close> with the single reason "Question appears to be
  about finance/business, which is out of scope.".
\<close>

theorem banned_only_rejected:
  "word \<in> set banned_keywords \<Longrightarrow> contains word (lower text) \<Longrightarrow>
   \<forall>w \<in> set waste_keywords. \<not> contains w (lower text) \<Longrightarrow>
   is_waste_management_question text
     = (False, [''Question appears to be about finance/business, which is out of scope.''])"
  unfolding classifier_cases list_ex_iff by auto

theorem banned_only_rejected_witness:
  "''stock'' \<in> set banned_keywords \<and> contains ''stock'' (lower ''What's the best stock to buy?'')
   \<and> \<not> list_ex (\<lambda>w. contains w (lower ''What's the best stock to buy?'')) waste_keywords
   \<and> is_waste_management_question ''What's the best stock to buy?''
       = (False, [''Question appears to be about finance/business, which is out of scope.''])"
proof -
  have k: "''stock'' \<in> set banned_keywords"
    by (simp add: banned_keywords_def)
  have c: "contains ''stock'' (lower ''What's the best stock to buy?'')"
    by (simp add: lower_def lower_char_def)
  have n: "\<forall>w \<in> set waste_keywords. \<not> contains w (lower ''What's the best stock to buy?'')"
    by (simp add: waste_keywords_def lower_def lower_char_def)
  from k c n banned_only_rejected [OF k c n] show ?thesis
    unfolding list_ex_iff by blast
qed

text \<open>
  C5. Whenever one of the phrases "bin day", "pickup day", "how to dispose", "can i throw"
  occurs in the lower-cased text and neither a waste keyword nor a banned keyword does, the
  classifier answers \<open>allowed = True\<close> with the single reason "Detected disposal/pickup
  context.".
\<close>

theorem context_hint_allowed:
  "h \<in> set [''bin day'', ''pickup day'', ''how to dispose'', ''can i throw''] \<Longrightarrow>
   contains h (lower text) \<Longrightarrow>
   \<forall>w \<in> set waste_keywords. \<not> contains w (lower text) \<Longrightarrow>
   \<forall>w \<in> set banned_keywords. \<not> contains w (lower text) \<Longrightarrow>
   is_waste_management_question text = (True, [''Detected disposal/pickup context.''])"
  unfolding classifier_cases list_ex_iff context_hints_def by auto

theorem context_hint_allowed_witness:
  "contains ''how to dispose'' (lower ''How to dispose of old paint?'')
   \<and> \<not> list_ex (\<lambda>w. contains w (lower ''How to dispose of old paint?'')) waste_keywords
   \<and> \<not> list_ex (\<lambda>w. contains w (lower ''How to dispose of old paint?'')) banned_keywords
   \<and> is_waste_management_question ''How to dispose of old paint?''
       = (True, [''Detected disposal/pickup context.''])"
proof -
  have h: "''how to dispose'' \<in> set [''bin day'', ''pickup day'', ''how to dispose'', ''can i throw'']"
    by simp
  have c: "contains ''how to dispose'' (lower ''How to dispose of old paint?'')"
    by (simp add: lower_def lower_char_def)
  have w: "\<forall>w \<in> set waste_keywords. \<not> contains w (lower ''How to dispose of old paint?'')"
    by (simp add: waste_keywords_def lower_def lower_char_def)
  have b: "\<forall>w \<in> set banned_keywords. \<not> contains w (lower ''How to dispose of old paint?'')"
    by (simp add: banned_keywords_def lower_def lower_char_def)
  from c w b context_hint_allowed [OF h c w b] show ?thesis
    unfolding list_ex_iff by blast
qed

text \<open>
  C6. Whenever no waste keyword, no banned keyword and no context hint occurs in the
  lower-cased text, the classifier answers \<open>allowed = False\<close> with the single reason
  "Could not match the topic to waste management.".
\<close>

theorem no_match_rejected:
  "\<forall>w \<in> set waste_keywords. \<not> contains w (lower text) \<Longrightarrow>
   \<forall>w \<in> set banned_keywords. \<not> contains w (lower text) \<Longrightarrow>
   \<forall>h \<in> set context_hints. \<not> contains h (lower text) \<Longrightarrow>
   is_waste_management_question text = (False, [''Could not match the topic to waste management.''])"
  unfolding classifier_cases list_ex_iff by auto

theorem no_match_rejected_witness:
  "\<not> list_ex (\<lambda>w. contains w (lower ''What is the weather today?'')) waste_keywords
   \<and> \<not> list_ex (\<lambda>w. contains w (lower ''What is the weather today?'')) banned_keywords
   \<and> \<not> list_ex (\<lambda>h. contains h (lower ''What is the weather today?'')) context_hints
   \<and> is_waste_management_question ''What is the weather today?''
       = (False, [''Could not match the topic to waste management.''])"
proof -
  have w: "\<forall>w \<in> set waste_keywords. \<not> contains w (lower ''What is the weather today?'')"
    by (simp add: waste_keywords_def lower_def lower_char_def)
  have b: "\<forall>w \<in> set banned_keywords. \<not> contains w (lower ''What is the weather today?'')"
    by (simp add: banned_keywords_def lower_def lower_char_def)
  have h: "\<forall>h \<in> set context_hints. \<not> contains h (lower ''What is the weather today?'')"
    by (simp add: context_hints_def lower_def lower_char_def)
  from w b h no_match_rejected [OF w b h] show ?thesis
    unfolding list_ex_iff by blast
qed

text \<open>
  C10. If the classifier gives the reason "Detected disposal/pickup context.", then the
  lower-cased text contains "how to dispose" or "can i throw". The hints "bin day" and
  "pickup day" never reach that branch: a text containing one of them contains the waste
  keyword "bin" or "pickup" and gets the waste-keyword reason.
\<close>

theorem context_reason_needs_phrase:
  "(snd (is_waste_management_question text) = [''Detected disposal/pickup context.''] \<longrightarrow>
      contains ''how to dispose'' (lower text) \<or> contains ''can i throw'' (lower text))
   \<and> (contains ''bin day'' (lower text) \<longrightarrow>
        ''bin'' \<in> set waste_keywords \<and> contains ''bin'' (lower text)
        \<and> snd (is_waste_management_question text) = [''Detected waste-management related keywords.''])
   \<and> (contains ''pickup day'' (lower text) \<longrightarrow>
        ''pickup'' \<in> set waste_keywords \<and> contains ''pickup'' (lower text)
        \<and> snd (is_waste_management_question text) = [''Detected waste-management related keywords.''])"
proof -
  have bin_kw: "''bin'' \<in> set waste_keywords" and pickup_kw: "''pickup'' \<in> set waste_keywords"
    by (simp_all add: waste_keywords_def)
  have bin: "contains ''bin'' t" if "contains ''bin day'' t" for t
    using contains_append_left [of "''bin''" "'' day''" t] that by simp
  have pickup: "contains ''pickup'' t" if "contains ''pickup day'' t" for t
    using contains_append_left [of "''pickup''" "'' day''" t] that by simp
  have waste: "snd (is_waste_management_question text) = [''Detected waste-management related keywords.'']"
    if "w \<in> set waste_keywords" "contains w (lower text)" for w
    using that unfolding classifier_cases list_ex_iff by auto
  have first: "contains ''how to dispose'' (lower text) \<or> contains ''can i throw'' (lower text)"
    if r: "snd (is_waste_management_question text) = [''Detected disposal/pickup context.'']"
  proof -
    from r have nw: "\<not> list_ex (\<lambda>word. contains word (lower text)) waste_keywords"
      and hint: "list_ex (\<lambda>h. contains h (lower text)) context_hints"
      unfolding classifier_cases by (auto split: if_splits)
    from nw bin_kw pickup_kw have "\<not> contains ''bin'' (lower text)" "\<not> contains ''pickup'' (lower text)"
      unfolding list_ex_iff by blast+
    with bin pickup have "\<not> contains ''bin day'' (lower text)" "\<not> contains ''pickup day'' (lower text)"
      by blast+
    with hint show ?thesis
      by (simp add: context_hints_def)
  qed
  from first bin pickup waste bin_kw pickup_kw show ?thesis by blast
qed

theorem context_reason_needs_phrase_witness:
  "snd (is_waste_management_question ''Can I throw this away?'') = [''Detected disposal/pickup context.'']
   \<and> contains ''can i throw'' (lower ''Can I throw this away?'')
   \<and> contains ''bin day'' (lower ''Tell me about bin day'')
   \<and> snd (is_waste_management_question ''Tell me about bin day'') = [''Detected waste-management related keywords.'']
   \<and> contains ''pickup day'' (lower ''Which is pickup day?'')
   \<and> snd (is_waste_management_question ''Which is pickup day?'') = [''Detected waste-management related keywords.'']"
proof -
  have r: "snd (is_waste_management_question ''Can I throw this away?'') = [''Detected disposal/pickup context.'']"
    by (simp add: is_waste_management_question_def lower_def lower_char_def
        waste_keywords_def banned_keywords_def context_hints_def)
  have n: "\<not> contains ''how to dispose'' (lower ''Can I throw this away?'')"
    by (simp add: lower_def lower_char_def)
  have b: "contains ''bin day'' (lower ''Tell me about bin day'')"
    by (simp add: lower_def lower_char_def)
  have p: "contains ''pickup day'' (lower ''Which is pickup day?'')"
    by (simp add: lower_def lower_char_def)
  from r n b p context_reason_needs_phrase [of "''Can I throw this away?''"]
    context_reason_needs_phrase [of "''Tell me about bin day''"]
    context_reason_needs_phrase [of "''Which is pickup day?''"]
  show ?thesis by blast
qed

subsection \<open>End-to-end scenarios\<close>

text \<open>
  C3 (as amended). For the message "Tell me about bin day" the handler answers
  \<open>allowed = True\<close> through the waste-keyword path: the lower-cased text contains the waste
  keyword "bin", so the single reason is "Detected waste-management related keywords.", and
  since no FAQ key occurs in the text the reply is the generic fallback.
\<close>

theorem bin_day_waste_path:
  "chat \<lparr>message = ''Tell me about bin day''\<rparr>
     = \<lparr>reply = fallback_reply, allowed = True,
        reasons = [''Detected waste-management related keywords.'']\<rparr>"
  by (simp add: chat_def is_waste_management_question_def lower_def lower_char_def
      waste_keywords_def banned_keywords_def faqs_def)

text \<open>
  C3 as stated fails: on "Tell me about bin day" the reason is not the disposal/pickup-context
  one, and a direct waste keyword ("bin") is present in the text.
\<close>

theorem bin_day_not_context_path:
  "reasons (chat \<lparr>message = ''Tell me about bin day''\<rparr>) \<noteq> [''Detected disposal/pickup context.'']
   \<and> ''bin'' \<in> set waste_keywords
   \<and> contains ''bin'' (lower ''Tell me about bin day'')"
  by (simp add: chat_def is_waste_management_question_def lower_def lower_char_def
      waste_keywords_def banned_keywords_def faqs_def)

text \<open>
  C9. For the message "When is my recycling pickup?" the handler answers \<open>allowed = True\<close>
  and the reply is the answer of the FAQ pair with key "pickup" (the sixth pair); of the
  eight FAQ keys only "pickup" occurs in the lower-cased text, so no earlier pair matches.
\<close>

theorem recycling_pickup_reply:
  "allowed (chat \<lparr>message = ''When is my recycling pickup?''\<rparr>) = True
   \<and> faqs ! 5 = (''pickup'', reply (chat \<lparr>message = ''When is my recycling pickup?''\<rparr>))
   \<and> reply (chat \<lparr>message = ''When is my recycling pickup?''\<rparr>)
       = ''Curbside pickup days vary by location. Please check your local collection schedule or provide your area for specific guidance.''
   \<and> map (\<lambda>(key, ans). contains key (lower ''When is my recycling pickup?'')) faqs
       = [False, False, False, False, False, True, False, False]"
  by (simp add: chat_def is_waste_management_question_def lower_def lower_char_def
      waste_keywords_def banned_keywords_def faqs_def)

subsection \<open>The responder and the handler's outcome\<close>

text \<open>
  The loop returns the answer at the first index whose key occurs in the text, and an answer
  it returns is one of the table's.
\<close>

lemma faq_loop_first_match:
  "i < length fs \<Longrightarrow> contains (fst (fs ! i)) t \<Longrightarrow>
   \<forall>j<i. \<not> contains (fst (fs ! j)) t \<Longrightarrow>
   faq_loop fs t r = Some (snd (fs ! i))"
proof (induction fs t r arbitrary: i rule: faq_loop.induct)
  case (1 t r)
  then show ?case by simp
next
  case (2 key ans rest t r)
  show ?case
  proof (cases i)
    case 0
    with 2 show ?thesis by simp
  next
    case (Suc k)
    with "2.prems" have miss: "\<not> contains key t" by auto
    from Suc "2.prems" have "k < length rest" "contains (fst (rest ! k)) t"
      "\<forall>j<k. \<not> contains (fst (rest ! j)) t" by auto
    with "2.IH" [OF miss] have "faq_loop rest t r = Some (snd (rest ! k))" by blast
    with miss Suc show ?thesis by simp
  qed
qed

lemma faq_loop_answer:
  "faq_loop fs t None = Some a \<Longrightarrow> a \<in> snd ` set fs"
  by (induction fs t "None :: string option" rule: faq_loop.induct)
     (auto split: if_splits)

lemma chat_allowed: "allowed (chat req) = fst (is_waste_management_question (message req))"
  by (simp add: chat_def Let_def split: prod.splits)

lemma chat_reasons: "reasons (chat req) = snd (is_waste_management_question (message req))"
  by (simp add: chat_def Let_def split: prod.splits)

lemma chat_reply:
  "reply (chat req) =
     (if allowed (chat req) then
        (case faq_loop faqs (lower (message req)) None of
           None \<Rightarrow> fallback_reply
         | Some r \<Rightarrow> r)
      else refusal_reply)"
  by (simp add: chat_def Let_def split: prod.splits)

lemma classifier_one_reason: "length (snd (is_waste_management_question text)) = 1"
  by (simp add: classifier_cases)

text \<open>
  C4. Within an allowed request, if the key of the FAQ pair at index \<open>i\<close> occurs in the
  lower-cased message and the key of no pair at a smaller index does, the reply is the answer
  of pair \<open>i\<close>: the first matching pair of the ordered table wins. In particular
  "plastic battery" contains both the key "plastic" and the key "battery", is allowed, and the
  reply is the answer of "plastic", not that of "battery".
\<close>

theorem responder_first_match:
  "(allowed (chat req) \<and> i < length faqs
      \<and> contains (fst (faqs ! i)) (lower (message req))
      \<and> (\<forall>j<i. \<not> contains (fst (faqs ! j)) (lower (message req)))
    \<longrightarrow> reply (chat req) = snd (faqs ! i))
   \<and> contains ''plastic'' (lower ''plastic battery'')
   \<and> contains ''battery'' (lower ''plastic battery'')
   \<and> allowed (chat \<lparr>message = ''plastic battery''\<rparr>)
   \<and> map_of faqs ''plastic'' = Some (reply (chat \<lparr>message = ''plastic battery''\<rparr>))
   \<and> map_of faqs ''battery'' \<noteq> Some (reply (chat \<lparr>message = ''plastic battery''\<rparr>))"
proof -
  have general: "reply (chat rq) = snd (faqs ! k)"
    if "allowed (chat rq)" "k < length faqs"
      "contains (fst (faqs ! k)) (lower (message rq))"
      "\<forall>j<k. \<not> contains (fst (faqs ! j)) (lower (message rq))"
    for rq k
    using that faq_loop_first_match [of k faqs "lower (message rq)" None]
    by (simp add: chat_reply)
  have both: "contains ''plastic'' (lower ''plastic battery'')"
    "contains ''battery'' (lower ''plastic battery'')"
    by (simp_all add: lower_def lower_char_def)
  have ok: "allowed (chat \<lparr>message = ''plastic battery''\<rparr>)"
    by (simp add: chat_allowed is_waste_management_question_def lower_def lower_char_def
        waste_keywords_def banned_keywords_def)
  have "reply (chat \<lparr>message = ''plastic battery''\<rparr>) = snd (faqs ! 0)"
    using ok both(1) by (intro general) (simp_all add: faqs_def)
  then have plastic: "map_of faqs ''plastic'' = Some (reply (chat \<lparr>message = ''plastic battery''\<rparr>))"
    and battery: "map_of faqs ''battery'' \<noteq> Some (reply (chat \<lparr>message = ''plastic battery''\<rparr>))"
    by (simp_all add: faqs_def)
  from general [of req i] both ok plastic battery show ?thesis by blast
qed

text \<open>An instance where the first match is the third pair, with a later key matching too.\<close>

theorem responder_first_match_witness:
  "allowed (chat \<lparr>message = ''Glass and compost pickup''\<rparr>)
   \<and> \<not> contains ''plastic'' (lower ''Glass and compost pickup'')
   \<and> \<not> contains ''battery'' (lower ''Glass and compost pickup'')
   \<and> contains ''compost'' (lower ''Glass and compost pickup'')
   \<and> contains ''glass'' (lower ''Glass and compost pickup'')
   \<and> fst (faqs ! 2) = ''compost''
   \<and> reply (chat \<lparr>message = ''Glass and compost pickup''\<rparr>) = snd (faqs ! 2)"
proof -
  let ?req = "\<lparr>message = ''Glass and compost pickup''\<rparr>"
  have ok: "allowed (chat ?req)"
    by (simp add: chat_allowed is_waste_management_question_def lower_def lower_char_def
        waste_keywords_def banned_keywords_def)
  have n0: "\<not> contains ''plastic'' (lower ''Glass and compost pickup'')"
    and n1: "\<not> contains ''battery'' (lower ''Glass and compost pickup'')"
    and y2: "contains ''compost'' (lower ''Glass and compost pickup'')"
    and y3: "contains ''glass'' (lower ''Glass and compost pickup'')"
    by (simp_all add: lower_def lower_char_def)
  have k: "fst (faqs ! 0) = ''plastic''" "fst (faqs ! 1) = ''battery''"
    "fst (faqs ! 2) = ''compost''" "(2::nat) < length faqs"
    by (simp_all add: faqs_def)
  have earlier: "\<forall>j<2. \<not> contains (fst (faqs ! j)) (lower (message ?req))"
  proof (intro allI impI)
    fix j :: nat
    assume "j < 2"
    then have "j = 0 \<or> j = 1" by arith
    with n0 n1 k show "\<not> contains (fst (faqs ! j)) (lower (message ?req))" by auto
  qed
  have hit: "contains (fst (faqs ! 2)) (lower (message ?req))"
    using y2 k by simp
  from responder_first_match [of ?req 2] ok k(4) hit earlier
  have "reply (chat ?req) = snd (faqs ! 2)" by blast
  with ok n0 n1 y2 y3 k(3) show ?thesis by blast
qed

text \<open>
  C7. For every request the response of the handler has a non-empty reply and a reasons list
  of exactly one element; the classifier appends exactly one reason on every path, for every
  text.
\<close>

theorem chat_outcome_shape:
  "reply (chat req) \<noteq> [] \<and> length (reasons (chat req)) = 1
   \<and> length (snd (is_waste_management_question text)) = 1"
proof -
  have answers: "\<forall>a \<in> snd ` set faqs. a \<noteq> []"
    by (simp add: faqs_def)
  have "reply (chat req) \<noteq> []"
  proof (cases "faq_loop faqs (lower (message req)) None")
    case None
    then show ?thesis
      by (simp add: chat_reply fallback_reply_def refusal_reply_def)
  next
    case (Some a)
    with faq_loop_answer answers have "a \<noteq> []" by blast
    with Some show ?thesis
      by (simp add: chat_reply refusal_reply_def)
  qed
  then show ?thesis
    by (simp add: chat_reasons classifier_one_reason)
qed

subsection \<open>Totality of the classifier\<close>

text \<open>
  The body of the classifier uses \<open>str.lower\<close>, \<open>in\<close>, \<open>any\<close> and \<open>list.append\<close> only, none
  of which raises on a string, and it has no \<open>raise\<close> of its own: the model has no error
  branch. Every keyword and hint starts with a letter, so none of them occurs in a text made
  of white space.  The white-space characters below are the ASCII characters for which
  \<open>str.isspace\<close> holds: space, tab, line feed, vertical tab, form feed, carriage return and
  the four separators 0x1C to 0x1F.
\<close>

lemma contains_hd: "contains word t \<Longrightarrow> word \<noteq> [] \<Longrightarrow> hd word \<in> set t"
  using contains_set [of word t] hd_in_set [of word] by blast

lemma lower_char_space:
  "\<forall>c \<in> set [CHR '' '', CHR 0x09, CHR 0x0A, CHR 0x0B, CHR 0x0C, CHR 0x0D,
                CHR 0x1C, CHR 0x1D, CHR 0x1E, CHR 0x1F]. lower_char c = c"
  by (simp add: lower_char_def)

lemma waste_hd:
  "\<forall>k \<in> set waste_keywords. k \<noteq> [] \<and>
     hd k \<notin> set [CHR '' '', CHR 0x09, CHR 0x0A, CHR 0x0B, CHR 0x0C, CHR 0x0D,
                  CHR 0x1C, CHR 0x1D, CHR 0x1E, CHR 0x1F]"
  by (simp add: waste_keywords_def)

lemma banned_hd:
  "\<forall>k \<in> set banned_keywords. k \<noteq> [] \<and>
     hd k \<notin> set [CHR '' '', CHR 0x09, CHR 0x0A, CHR 0x0B, CHR 0x0C, CHR 0x0D,
                  CHR 0x1C, CHR 0x1D, CHR 0x1E, CHR 0x1F]"
  by (simp add: banned_keywords_def)

lemma hints_hd:
  "\<forall>k \<in> set context_hints. k \<noteq> [] \<and>
     hd k \<notin> set [CHR '' '', CHR 0x09, CHR 0x0A, CHR 0x0B, CHR 0x0C, CHR 0x0D,
                  CHR 0x1C, CHR 0x1D, CHR 0x1E, CHR 0x1F]"
  by (simp add: context_hints_def)

lemma space_only_default:
  assumes "set s \<subseteq> set [CHR '' '', CHR 0x09, CHR 0x0A, CHR 0x0B, CHR 0x0C, CHR 0x0D,
                          CHR 0x1C, CHR 0x1D, CHR 0x1E, CHR 0x1F]"
  shows "is_waste_management_question s
           = (False, [''Could not match the topic to waste management.''])"
proof -
  define ws where "ws = set [CHR '' '', CHR 0x09, CHR 0x0A, CHR 0x0B, CHR 0x0C, CHR 0x0D,
                             CHR 0x1C, CHR 0x1D, CHR 0x1E, CHR 0x1F]"
  have fix_ws: "\<forall>c \<in> ws. lower_char c = c"
    unfolding ws_def by (rule lower_char_space)
  have w: "\<forall>k \<in> set waste_keywords. k \<noteq> [] \<and> hd k \<notin> ws"
    unfolding ws_def by (rule waste_hd)
  have b: "\<forall>k \<in> set banned_keywords. k \<noteq> [] \<and> hd k \<notin> ws"
    unfolding ws_def by (rule banned_hd)
  have h: "\<forall>k \<in> set context_hints. k \<noteq> [] \<and> hd k \<notin> ws"
    unfolding ws_def by (rule hints_hd)
  from assms have "set s \<subseteq> ws"
    unfolding ws_def .
  with fix_ws have sp: "set (lower s) \<subseteq> ws"
    unfolding lower_def by auto
  have none: "\<not> contains k (lower s)" if "k \<noteq> [] \<and> hd k \<notin> ws" for k
    using that sp contains_hd [of k "lower s"] by blast
  from none w have "\<not> list_ex (\<lambda>word. contains word (lower s)) waste_keywords"
    unfolding list_ex_iff by blast
  moreover from none b have "\<not> list_ex (\<lambda>word. contains word (lower s)) banned_keywords"
    unfolding list_ex_iff by blast
  moreover from none h have "\<not> list_ex (\<lambda>h. contains h (lower s)) context_hints"
    unfolding list_ex_iff by blast
  ultimately show ?thesis
    unfolding classifier_cases by (simp only: if_False)
qed

lemma classifier_outcomes:
  "is_waste_management_question text \<in> set
     [(False, [''Question appears to be about finance/business, which is out of scope.'']),
      (True, [''Detected waste-management related keywords.'']),
      (True, [''Detected disposal/pickup context.'']),
      (False, [''Could not match the topic to waste management.''])]"
proof -
  let ?w = "list_ex (\<lambda>word. contains word (lower text)) waste_keywords"
  let ?b = "list_ex (\<lambda>word. contains word (lower text)) banned_keywords"
  let ?h = "list_ex (\<lambda>h. contains h (lower text)) context_hints"
  consider ?w | "\<not> ?w" ?b | "\<not> ?w" "\<not> ?b" ?h | "\<not> ?w" "\<not> ?b" "\<not> ?h"
    by blast
  then show ?thesis
  proof cases
    case 1
    then have "is_waste_management_question text
                 = (True, [''Detected waste-management related keywords.''])"
      unfolding classifier_cases by (simp only: if_True)
    then show ?thesis by simp
  next
    case 2
    then have "is_waste_management_question text
                 = (False, [''Question appears to be about finance/business, which is out of scope.''])"
      unfolding classifier_cases by (simp only: if_True if_False)
    then show ?thesis by simp
  next
    case 3
    then have "is_waste_management_question text = (True, [''Detected disposal/pickup context.''])"
      unfolding classifier_cases by (simp only: if_True if_False)
    then show ?thesis by simp
  next
    case 4
    then have "is_waste_management_question text
                 = (False, [''Could not match the topic to waste management.''])"
      unfolding classifier_cases by (simp only: if_False)
    then show ?thesis by simp
  qed
qed

text \<open>
  C8. The classifier returns one of its four outcomes on every string; on the empty string and
  on every string made of white-space characters only it returns the default outcome,
  \<open>allowed = False\<close> with the reason "Could not match the topic to waste management.".
\<close>

theorem classifier_total:
  "is_waste_management_question text \<in> set
     [(False, [''Question appears to be about finance/business, which is out of scope.'']),
      (True, [''Detected waste-management related keywords.'']),
      (True, [''Detected disposal/pickup context.'']),
      (False, [''Could not match the topic to waste management.''])]
   \<and> is_waste_management_question []
       = (False, [''Could not match the topic to waste management.''])
   \<and> (set text \<subseteq> set [CHR '' '', CHR 0x09, CHR 0x0A, CHR 0x0B, CHR 0x0C, CHR 0x0D,
                          CHR 0x1C, CHR 0x1D, CHR 0x1E, CHR 0x1F]
        \<longrightarrow> is_waste_management_question text
              = (False, [''Could not match the topic to waste management.'']))"
proof (intro conjI impI)
  show "is_waste_management_question text \<in> set
     [(False, [''Question appears to be about finance/business, which is out of scope.'']),
      (True, [''Detected waste-management related keywords.'']),
      (True, [''Detected disposal/pickup context.'']),
      (False, [''Could not match the topic to waste management.''])]"
    by (rule classifier_outcomes)
next
  have "set ([] :: string) \<subseteq> set [CHR '' '', CHR 0x09, CHR 0x0A, CHR 0x0B, CHR 0x0C, CHR 0x0D,
                          CHR 0x1C, CHR 0x1D, CHR 0x1E, CHR 0x1F]"
    by (simp only: list.set(1) empty_subsetI)
  then show "is_waste_management_question []
       = (False, [''Could not match the topic to waste management.''])"
    by (rule space_only_default)
next
  assume "set text \<subseteq> set [CHR '' '', CHR 0x09, CHR 0x0A, CHR 0x0B, CHR 0x0C, CHR 0x0D,
                          CHR 0x1C, CHR 0x1D, CHR 0x1E, CHR 0x1F]"
  then show "is_waste_management_question text
              = (False, [''Could not match the topic to waste management.''])"
    by (rule space_only_default)
qed

text \<open>An instance: a space, a tab and a line feed.\<close>

theorem classifier_total_witness:
  "is_waste_management_question [CHR '' '', CHR 0x09, CHR 0x0A]
       = (False, [''Could not match the topic to waste management.''])
   \<and> \<not> list_ex (\<lambda>c. c \<notin> set [CHR '' '', CHR 0x09, CHR 0x0A, CHR 0x0B, CHR 0x0C, CHR 0x0D,
                          CHR 0x1C, CHR 0x1D, CHR 0x1E, CHR 0x1F]) [CHR '' '', CHR 0x09, CHR 0x0A]"
proof -
  have h: "set [CHR '' '', CHR 0x09, CHR 0x0A]
             \<subseteq> set [CHR '' '', CHR 0x09, CHR 0x0A, CHR 0x0B, CHR 0x0C, CHR 0x0D,
                    CHR 0x1C, CHR 0x1D, CHR 0x1E, CHR 0x1F]"
    by simp
  have l: "\<not> list_ex (\<lambda>c. c \<notin> set [CHR '' '', CHR 0x09, CHR 0x0A, CHR 0x0B, CHR 0x0C, CHR 0x0D,
                          CHR 0x1C, CHR 0x1D, CHR 0x1E, CHR 0x1F]) [CHR '' '', CHR 0x09, CHR 0x0A]"
    by simp
  from classifier_total [of "[CHR '' '', CHR 0x09, CHR 0x0A]"]
  have "set [CHR '' '', CHR 0x09, CHR 0x0A]
             \<subseteq> set [CHR '' '', CHR 0x09, CHR 0x0A, CHR 0x0B, CHR 0x0C, CHR 0x0D,
                    CHR 0x1C, CHR 0x1D, CHR 0x1E, CHR 0x1F]
        \<longrightarrow> is_waste_management_question [CHR '' '', CHR 0x09, CHR 0x0A]
              = (False, [''Could not match the topic to waste management.''])"
    by (elim conjE)
  with h have "is_waste_management_question [CHR '' '', CHR 0x09, CHR 0x0A]
              = (False, [''Could not match the topic to waste management.''])"
    by (rule rev_mp)
  from this l show ?thesis by (rule conjI)
qed

end
